theory Spec2Isabelle
  imports Complex_Main "HOL-Library.AList"
begin

section \<open>Numbers\<close>

text \<open>
  JavaScript numbers are modelled exactly: coordinates and sizes are rationals, angles
  in degrees are integers (every angle the source computes is a sum of whole steps or the
  \<open>parseInt\<close> of a slider value). The literal \<open>0.02\<close> is the rational \<open>2/100\<close>.
\<close>

text \<open>The remainder operator \<open>%\<close> of JavaScript truncates towards zero: the result has
  the sign of the dividend.\<close>

definition js_rem :: "int \<Rightarrow> int \<Rightarrow> int" where
  "js_rem a b = sgn a * (\<bar>a\<bar> mod \<bar>b\<bar>)"

section \<open>Data model\<close>

record roomConfig =
  room_width :: rat
  room_height :: rat
  room_color :: string
  room_wallColor :: "string option"

text \<open>A furniture item as the editor and the viewer hold it. \<open>rotation\<close> is absent
  (\<open>undefined\<close>) on items created before the field existed, as in the seed designs.\<close>

record furnitureItem =
  item_id :: int
  item_x :: rat
  item_y :: rat
  item_width :: rat
  item_height :: rat
  item_fill :: string
  item_name :: string
  item_rotation :: "int option"

text \<open>\<open>item.rotation || 0\<close>: an absent rotation reads as 0 (and 0 is 0).\<close>

definition rotation_or_0 :: "furnitureItem \<Rightarrow> int" where
  "rotation_or_0 item = (case item_rotation item of None \<Rightarrow> 0 | Some r \<Rightarrow> r)"

section \<open>Viewer3D: placement in world space\<close>

definition scale :: rat where
  "scale = 2 / 100"

text \<open>The placement computed at the head of \<open>loadModel\<close> (Viewer3D.jsx, lines 206-208),
  with \<open>roomWidth = design.roomConfig.width * scale\<close> and
  \<open>roomDepth = design.roomConfig.height * scale\<close> (lines 144-147).\<close>

definition loadModel_xz :: "roomConfig \<Rightarrow> furnitureItem \<Rightarrow> rat \<times> rat" where
  "loadModel_xz room item =
     (let roomWidth = room_width room * scale;
          roomDepth = room_height room * scale;
          x = (item_x item * scale) - (roomWidth / 2) + (item_width item * scale / 2);
          z = (item_y item * scale) - (roomDepth / 2) + (item_height item * scale / 2)
      in (x, z))"

text \<open>The same conversion as \<open>moveSelectedFurniture\<close> writes it for the moved position
  (Viewer3D.jsx, lines 522-527).\<close>

definition move_xz :: "roomConfig \<Rightarrow> furnitureItem \<Rightarrow> rat \<Rightarrow> rat \<Rightarrow> rat \<times> rat" where
  "move_xz room item newX newY =
     (let roomWidth = room_width room * scale;
          roomDepth = room_height room * scale;
          x = (newX * scale) - (roomWidth / 2) + (item_width item * scale / 2);
          z = (newY * scale) - (roomDepth / 2) + (item_height item * scale / 2)
      in (x, z))"

text \<open>The regression input of the specification: an item of 100 by 60 at (250, 200) in a
  room of 500 by 400.\<close>

definition baseline_room :: roomConfig where
  "baseline_room = \<lparr>room_width = 500, room_height = 400, room_color = ''#F5F5DC'',
                     room_wallColor = Some ''#F5F5F5''\<rparr>"

definition baseline_item :: furnitureItem where
  "baseline_item = \<lparr>item_id = 1, item_x = 250, item_y = 200, item_width = 100,
                     item_height = 60, item_fill = ''#8B4513'', item_name = ''Sofa'',
                     item_rotation = None\<rparr>"

section \<open>Viewer3D: keyboard and button edits of the selected item\<close>

text \<open>
  A node of the scene graph, as \<open>scene.traverse\<close> visits it: \<open>userData.itemId\<close> (absent
  on the floor, the walls, the lights and on every mesh below a model's root), the world
  position and the rotation about the vertical axis. The scene is the list of its nodes in
  traversal order. \<open>THREE.MathUtils.degToRad\<close> belongs to the 3D library: it is a parameter
  of the functions that call it, and the type of a node's angle is its result type.
\<close>

record 'r node =
  node_itemId :: "int option"
  node_position_x :: rat
  node_position_z :: rat
  node_rotation_y :: 'r

record design =
  design_id :: string
  design_name :: string
  design_roomConfig :: roomConfig
  design_furniture :: "furnitureItem list"

text \<open>The messages handed to \<open>showInfo\<close>, by their template, and the warning handed
  to \<open>console.warn\<close>.\<close>

datatype message =
    Moved string string
  | Rotated string int
  | Added string
  | Deleted string

datatype warning = CouldNotFindModel int

record 'r viewer =
  v_selectedModelId :: "int option"
  v_design :: "design option"
  v_sceneRef :: "'r node list option"
  v_console :: "warning list"
  v_info :: "message list"

text \<open>\<open>Array.prototype.findIndex\<close>: the first index whose element satisfies the
  predicate; \<open>None\<close> stands for -1.\<close>

primrec findIndex :: "('a \<Rightarrow> bool) \<Rightarrow> 'a list \<Rightarrow> nat option" where
  "findIndex P [] = None"
| "findIndex P (a # as) = (if P a then Some 0 else map_option Suc (findIndex P as))"

text \<open>\<open>scene.traverse\<close> with a callback that edits the nodes tagged with the selected
  id and raises the flag \<open>modelFound\<close>.\<close>

definition traverse_edit ::
  "int \<Rightarrow> ('r node \<Rightarrow> 'r node) \<Rightarrow> 'r node list \<Rightarrow> 'r node list \<times> bool" where
  "traverse_edit sel f nodes =
     (map (\<lambda>child. if node_itemId child = Some sel then f child else child) nodes,
      list_ex (\<lambda>child. node_itemId child = Some sel) nodes)"


definition rotateSelectedFurniture :: "(int \<Rightarrow> 'r) \<Rightarrow> int \<Rightarrow> 'r viewer \<Rightarrow> 'r viewer" where
  "rotateSelectedFurniture degToRad degrees st =
     (case (v_selectedModelId st, v_design st, v_sceneRef st) of
        (Some sel, Some d, Some nodes) \<Rightarrow>
          if sel = 0 then st
          else
            (case findIndex (\<lambda>item. item_id item = sel) (design_furniture d) of
               None \<Rightarrow> st
             | Some selectedItemIndex \<Rightarrow>
                 let updatedFurniture = design_furniture d;
                     item = updatedFurniture ! selectedItemIndex;
                     currentRotation = rotation_or_0 item;
                     r = js_rem (currentRotation + degrees) 360;
                     newRotation = (if r < 0 then r + 360 else r);
                     (nodes', modelFound) =
                       traverse_edit sel
                         (\<lambda>child. child\<lparr>node_rotation_y := degToRad newRotation\<rparr>) nodes
                 in if \<not> modelFound
                    then st\<lparr>v_sceneRef := Some nodes',
                            v_console := v_console st @ [CouldNotFindModel sel]\<rparr>
                    else st\<lparr>v_sceneRef := Some nodes',
                            v_design := Some (d\<lparr>design_furniture :=
                              updatedFurniture[selectedItemIndex :=
                                item\<lparr>item_rotation := Some newRotation\<rparr>]\<rparr>),
                            v_info := v_info st @ [Rotated (item_name item) newRotation]\<rparr>)
      | _ \<Rightarrow> st)"

text \<open>The handler of the viewer's rotation slider. Its argument is already the
  \<open>parseInt\<close> of the slider's value, and \<open>parseInt\<close> of a whole number is that number.\<close>

definition Viewer3D_updateFurnitureRotation ::
  "(int \<Rightarrow> 'r) \<Rightarrow> int \<Rightarrow> 'r viewer \<Rightarrow> 'r viewer" where
  "Viewer3D_updateFurnitureRotation degToRad degrees st =
     (case (v_selectedModelId st, v_design st, v_sceneRef st) of
        (Some sel, Some d, Some nodes) \<Rightarrow>
          if sel = 0 then st
          else
            (case findIndex (\<lambda>item. item_id item = sel) (design_furniture d) of
               None \<Rightarrow> st
             | Some selectedItemIndex \<Rightarrow>
                 let updatedFurniture = design_furniture d;
                     item = updatedFurniture ! selectedItemIndex;
                     newRotation = degrees;
                     (nodes', modelFound) =
                       traverse_edit sel
                         (\<lambda>child. child\<lparr>node_rotation_y := degToRad newRotation\<rparr>) nodes
                 in if \<not> modelFound
                    then st\<lparr>v_sceneRef := Some nodes',
                            v_console := v_console st @ [CouldNotFindModel sel]\<rparr>
                    else st\<lparr>v_sceneRef := Some nodes',
                            v_design := Some (d\<lparr>design_furniture :=
                              updatedFurniture[selectedItemIndex :=
                                item\<lparr>item_rotation := Some newRotation\<rparr>]\<rparr>)\<rparr>)
      | _ \<Rightarrow> st)"

text \<open>Reading the state (not in the source): the furniture item an edit works on, when
  the guards at the head of the edit let it through, and whether the scene holds a node
  tagged with the selected id.\<close>

definition selected_item :: "'r viewer \<Rightarrow> furnitureItem option" where
  "selected_item st =
     (case (v_selectedModelId st, v_design st, v_sceneRef st) of
        (Some sel, Some d, Some nodes) \<Rightarrow>
          if sel = 0 then None
          else map_option (\<lambda>i. design_furniture d ! i)
                 (findIndex (\<lambda>item. item_id item = sel) (design_furniture d))
      | _ \<Rightarrow> None)"

definition selected_nodes :: "'r viewer \<Rightarrow> 'r node list" where
  "selected_nodes st =
     (case (v_selectedModelId st, v_sceneRef st) of
        (Some sel, Some nodes) \<Rightarrow> filter (\<lambda>child. node_itemId child = Some sel) nodes
      | _ \<Rightarrow> [])"

definition the_furniture :: "'r viewer \<Rightarrow> furnitureItem list" where
  "the_furniture st = (case v_design st of None \<Rightarrow> [] | Some d \<Rightarrow> design_furniture d)"



section \<open>Editor2D: the furniture list\<close>

record furnitureType =
  ft_type :: string
  ft_name :: string
  ft_width :: rat
  ft_height :: rat
  ft_fill :: string

text \<open>The table \<open>furnitureTypes\<close> (Editor2D.jsx, lines 281-288), without the icons.\<close>

definition furnitureTypes :: "furnitureType list" where
  "furnitureTypes =
     [\<lparr>ft_type = ''sofa'', ft_name = ''Sofa'', ft_width = 120, ft_height = 70, ft_fill = ''#8B4513''\<rparr>,
      \<lparr>ft_type = ''table'', ft_name = ''Table'', ft_width = 80, ft_height = 80, ft_fill = ''#A0522D''\<rparr>,
      \<lparr>ft_type = ''bed'', ft_name = ''Bed'', ft_width = 160, ft_height = 200, ft_fill = ''#CD853F''\<rparr>,
      \<lparr>ft_type = ''bookshelf'', ft_name = ''Bookshelf'', ft_width = 60, ft_height = 120, ft_fill = ''#D2B48C''\<rparr>,
      \<lparr>ft_type = ''dresser'', ft_name = ''Dresser'', ft_width = 100, ft_height = 50, ft_fill = ''#8B4513''\<rparr>,
      \<lparr>ft_type = ''plant'', ft_name = ''Plant'', ft_width = 40, ft_height = 40, ft_fill = ''#228B22''\<rparr>]"

text \<open>
  The state of the editor component: the React state the handlers read and set, the
  messages shown, and the module-level \<open>topDownImageCache\<close>. \<open>e_calls\<close> is not in the
  source: it records, in order, the cache key of every call of \<open>createTopDownImage\<close>.
\<close>

record editor =
  e_roomConfig :: roomConfig
  e_furniture :: "furnitureItem list"
  e_selectedId :: "int option"
  e_info :: "message list"
  e_modelPreviews :: "string \<rightharpoonup> string"
  e_topDownImageCache :: "string \<rightharpoonup> string"
  e_calls :: "string list"

text \<open>\<open>addFurniture\<close>; \<open>now\<close> is the value \<open>Date.now()\<close> returns at the call.\<close>

definition addFurniture :: "int \<Rightarrow> string \<Rightarrow> editor \<Rightarrow> editor" where
  "addFurniture now type st =
     (let furnitureType =
            (case find (\<lambda>f. ft_type f = type) furnitureTypes of
               Some f \<Rightarrow> f
             | None \<Rightarrow> furnitureTypes ! 0);
          newItem =
            \<lparr>item_id = now,
             item_x = room_width (e_roomConfig st) / 2 - ft_width furnitureType / 2,
             item_y = room_height (e_roomConfig st) / 2 - ft_height furnitureType / 2,
             item_width = ft_width furnitureType,
             item_height = ft_height furnitureType,
             item_fill = ft_fill furnitureType,
             item_name = ft_name furnitureType,
             item_rotation = Some 0\<rparr>
      in st\<lparr>e_furniture := e_furniture st @ [newItem],
             e_selectedId := Some now,
             e_info := e_info st @ [Added (ft_name furnitureType)]\<rparr>)"

text \<open>A selected id is truthy when it is neither \<open>null\<close> nor 0.\<close>

definition truthy_id :: "int option \<Rightarrow> bool" where
  "truthy_id sid = (case sid of None \<Rightarrow> False | Some i \<Rightarrow> i \<noteq> 0)"

definition Editor2D_updateFurnitureRotation :: "int \<Rightarrow> editor \<Rightarrow> editor" where
  "Editor2D_updateFurnitureRotation degrees st =
     (if \<not> truthy_id (e_selectedId st) then st
      else st\<lparr>e_furniture :=
             map (\<lambda>item. if Some (item_id item) = e_selectedId st
                          then item\<lparr>item_rotation := Some degrees\<rparr> else item)
                 (e_furniture st)\<rparr>)"

text \<open>\<open>selectedItem\<close> (Editor2D.jsx, line 220); \<open>None\<close> stands for \<open>null\<close> and for
  \<open>undefined\<close>.\<close>

definition selectedItem :: "editor \<Rightarrow> furnitureItem option" where
  "selectedItem st =
     (if truthy_id (e_selectedId st)
      then find (\<lambda>item. Some (item_id item) = e_selectedId st) (e_furniture st)
      else None)"

text \<open>The rotate steps of the editor: the key \<open>r\<close> (line 396, step 15) and the button
  (line 697, step 90) both pass \<open>((selectedItem.rotation || 0) + step) % 360\<close>.\<close>

definition rotate_step :: "int \<Rightarrow> editor \<Rightarrow> editor" where
  "rotate_step step st =
     Editor2D_updateFurnitureRotation
       (js_rem ((case selectedItem st of None \<Rightarrow> 0 | Some item \<Rightarrow> rotation_or_0 item) + step) 360)
       st"

text \<open>The values an \<open>input type="range" min="0" max="360" step="15"\<close> can take, and
  its change handler (lines 687-693).\<close>

definition slider_values :: "int list" where
  "slider_values = map (\<lambda>k. 15 * int k) [0..<25]"

definition slider_onChange :: "int \<Rightarrow> editor \<Rightarrow> editor" where
  "slider_onChange v st = Editor2D_updateFurnitureRotation v st"

text \<open>The canvas node a transform ends on, as the handler reads it; its angle is taken
  in whole degrees.\<close>

record konvaNode =
  k_x :: rat
  k_y :: rat
  k_width :: rat
  k_height :: rat
  k_scaleX :: rat
  k_scaleY :: rat
  k_rotation :: int

definition onTransformEnd :: "furnitureItem \<Rightarrow> konvaNode \<Rightarrow> editor \<Rightarrow> editor" where
  "onTransformEnd item node st =
     st\<lparr>e_furniture :=
          map (\<lambda>f. if item_id f = item_id item
                    then f\<lparr>item_x := k_x node,
                           item_y := k_y node,
                           item_width := k_width node * k_scaleX node,
                           item_height := k_height node * k_scaleY node,
                           item_rotation := Some (k_rotation node)\<rparr>
                    else f)
              (e_furniture st)\<rparr>"

text \<open>
  \<open>deleteSelected\<close>. The two state updates are queued before the message is built;
  building it reads \<open>itemToDelete.name\<close>, which throws a TypeError when \<open>find\<close> returned
  \<open>undefined\<close>. The result is the error thrown, if any, and the state with the queued
  updates applied.
\<close>

datatype js_error = TypeError string | Error string

definition deleteSelected :: "editor \<Rightarrow> js_error option \<times> editor" where
  "deleteSelected st =
     (if truthy_id (e_selectedId st)
      then
        (let itemToDelete = find (\<lambda>item. Some (item_id item) = e_selectedId st) (e_furniture st);
             st' = st\<lparr>e_furniture :=
                        filter (\<lambda>item. Some (item_id item) \<noteq> e_selectedId st) (e_furniture st),
                      e_selectedId := None\<rparr>
         in case itemToDelete of
              None \<Rightarrow> (Some (TypeError ''Cannot read properties of undefined (reading 'name')''), st')
            | Some it \<Rightarrow> (None, st'\<lparr>e_info := e_info st' @ [Deleted (item_name it)]\<rparr>))
      else (None, st))"

section \<open>Editor2D: top-down previews\<close>

text \<open>The decimal string of a whole number, as a template literal renders it.\<close>

fun digits :: "nat \<Rightarrow> string" where
  "digits n = (if n < 10 then [''0123456789'' ! n]
               else digits (n div 10) @ [''0123456789'' ! (n mod 10)])"

declare digits.simps [simp del]

definition Number_toString :: "int \<Rightarrow> string" where
  "Number_toString i = (if i < 0 then CHR ''-'' # digits (nat (- i)) else digits (nat i))"

text \<open>A string is truthy when it is there and not empty.\<close>

definition truthy_str :: "string option \<Rightarrow> bool" where
  "truthy_str v = (case v of None \<Rightarrow> False | Some u \<Rightarrow> u \<noteq> [])"

text \<open>
  \<open>createTopDownImage\<close>. Everything between the cache check and \<open>toDataURL\<close> (the
  off-screen canvas, the model load, the WebGL render) is the parameter \<open>render\<close>: it
  yields the data URL, or \<open>None\<close> when anything in the \<open>try\<close> block throws. The
  result is the value returned (\<open>None\<close> for \<open>null\<close>) and the cache afterwards.
  Every cache key holds a hyphen, so no key names a property that an object literal
  inherits.
\<close>

definition createTopDownImage ::
  "(string \<Rightarrow> string \<Rightarrow> int \<Rightarrow> string option) \<Rightarrow> (string \<rightharpoonup> string) \<Rightarrow>
   string \<Rightarrow> string \<Rightarrow> int \<Rightarrow> string option \<times> (string \<rightharpoonup> string)" where
  "createTopDownImage render cache modelName color rotation =
     (let cacheKey = modelName @ ''-'' @ color @ ''-'' @ Number_toString rotation
      in if truthy_str (cache cacheKey) then (cache cacheKey, cache)
         else
           (case render modelName color rotation of
              None \<Rightarrow> (None, cache)
            | Some dataURL \<Rightarrow>
                (Some dataURL,
                 if dataURL \<noteq> [] then cache(cacheKey \<mapsto> dataURL) else cache)))"

text \<open>The cache key \<open>generatePreviews\<close> and the canvas use for an item (lines 420, 811).\<close>

definition item_cacheKey :: "furnitureItem \<Rightarrow> string" where
  "item_cacheKey item =
     item_name item @ ''-'' @ item_fill item @ ''-'' @ Number_toString (rotation_or_0 item)"

text \<open>The loop of \<open>generatePreviews\<close>: its variables \<open>newPreviews\<close> and
  \<open>updatedPreviews\<close>, the image cache and the record of calls.\<close>

record pass =
  newPreviews :: "string \<rightharpoonup> string"
  updatedPreviews :: bool
  imageCache :: "string \<rightharpoonup> string"
  calls :: "string list"

definition preview_step ::
  "(string \<Rightarrow> string \<Rightarrow> int \<Rightarrow> string option) \<Rightarrow> pass \<Rightarrow> furnitureItem \<Rightarrow> pass" where
  "preview_step render s item =
     (let cacheKey = item_cacheKey item
      in if \<not> truthy_str (newPreviews s cacheKey)
         then
           (let (imageUrl, cache') =
                  createTopDownImage render (imageCache s)
                    (item_name item) (item_fill item) (rotation_or_0 item);
                s' = s\<lparr>imageCache := cache', calls := calls s @ [cacheKey]\<rparr>
            in case imageUrl of
                 None \<Rightarrow> s'
               | Some u \<Rightarrow>
                   if u \<noteq> [] then s'\<lparr>newPreviews := (newPreviews s')(cacheKey \<mapsto> u),
                                       updatedPreviews := True\<rparr>
                   else s')
         else s)"

definition generatePreviews ::
  "(string \<Rightarrow> string \<Rightarrow> int \<Rightarrow> string option) \<Rightarrow> editor \<Rightarrow> editor" where
  "generatePreviews render st =
     (if e_furniture st = [] then st
      else
        (let s = foldl (preview_step render)
                   \<lparr>newPreviews = e_modelPreviews st, updatedPreviews = False,
                    imageCache = e_topDownImageCache st, calls = []\<rparr>
                   (e_furniture st)
         in st\<lparr>e_modelPreviews :=
                  (if updatedPreviews s then newPreviews s else e_modelPreviews st),
                e_topDownImageCache := imageCache s,
                e_calls := e_calls st @ calls s\<rparr>))"

section \<open>designService\<close>

text \<open>
  Designs are stored as JSON. An object is the list of its properties in insertion order;
  reading a property is \<open>map_of\<close>, assigning one is \<open>AList.update\<close> (in place when the
  name is there, appended otherwise). The entry \<open>furniture_designs\<close> of localStorage is
  absent (\<open>None\<close>) or holds the array of designs; \<open>JSON.stringify\<close> followed by
  \<open>JSON.parse\<close> is the identity on such values.
\<close>

datatype json =
    JNull
  | JBool bool
  | JNum rat
  | JStr string
  | JArr "json list"
  | JObj "(string \<times> json) list"

type_synonym object = "(string \<times> json) list"

type_synonym storage = "object list option"

text \<open>Object spread \<open>{...target, ...source}\<close>: the properties of the source are
  assigned in their order.\<close>

definition spread :: "object \<Rightarrow> object \<Rightarrow> object" where
  "spread target source = fold (\<lambda>(k, v). AList.update k v) source target"

definition getDesigns :: "storage \<Rightarrow> object list" where
  "getDesigns st = (case st of None \<Rightarrow> [] | Some designs \<Rightarrow> designs)"

definition getDesign :: "storage \<Rightarrow> string \<Rightarrow> js_error + object" where
  "getDesign st ident =
     (case find (\<lambda>d. map_of d ''id'' = Some (JStr ident)) (getDesigns st) of
        None \<Rightarrow> Inl (Error ''Design not found'')
      | Some d \<Rightarrow> Inr d)"

text \<open>\<open>updateDesign\<close>; \<open>now\<close> is the string \<open>new Date().toISOString()\<close> returns at the
  call. The result is what the call returns or throws, and the storage afterwards.\<close>

definition updateDesign ::
  "string \<Rightarrow> storage \<Rightarrow> string \<Rightarrow> object \<Rightarrow> (js_error + object) \<times> storage" where
  "updateDesign now st ident designData =
     (let designs = getDesigns st
      in case findIndex (\<lambda>d. map_of d ''id'' = Some (JStr ident)) designs of
           None \<Rightarrow> (Inl (Error ''Design not found''), st)
         | Some index \<Rightarrow>
             (let updatedDesign =
                    AList.update ''lastModified'' (JStr now)
                      (spread (spread [] (designs ! index)) designData)
              in (Inr updatedDesign, Some (designs[index := updatedDesign]))))"

definition deleteDesign :: "storage \<Rightarrow> string \<Rightarrow> bool \<times> storage" where
  "deleteDesign st ident =
     (let designs = getDesigns st;
          updatedDesigns = filter (\<lambda>d. map_of d ''id'' \<noteq> Some (JStr ident)) designs
      in (True, Some updatedDesigns))"

section \<open>modelService: the catalog\<close>

text \<open>
  The catalog tables are object literals, and \<open>TABLE[name]\<close> on an object literal finds
  the table's own property of that name or else the property the object inherits from
  \<open>Object.prototype\<close>; only when neither exists is the value \<open>undefined\<close>. The names
  below are the properties of \<open>Object.prototype\<close>; what they hold are functions (and,
  for \<open>__proto__\<close>, an object), all truthy.
\<close>

datatype 'a js_value = Own 'a | Inherited string | Undefined

definition Object_prototype :: "string list" where
  "Object_prototype =
     [''constructor'', ''hasOwnProperty'', ''isPrototypeOf'', ''propertyIsEnumerable'',
      ''toLocaleString'', ''toString'', ''valueOf'', ''__proto__'',
      ''__defineGetter__'', ''__defineSetter__'', ''__lookupGetter__'', ''__lookupSetter__'']"

definition js_get :: "(string \<times> 'a) list \<Rightarrow> string \<Rightarrow> 'a js_value" where
  "js_get table name =
     (case map_of table name of
        Some v \<Rightarrow> Own v
      | None \<Rightarrow> if name \<in> set Object_prototype then Inherited name else Undefined)"

text \<open>\<open>a || b\<close>, given when a table's own value is truthy.\<close>

definition js_or :: "('a \<Rightarrow> bool) \<Rightarrow> 'a js_value \<Rightarrow> 'a js_value \<Rightarrow> 'a js_value" where
  "js_or truthy a b =
     (case a of
        Own v \<Rightarrow> if truthy v then a else b
      | Inherited n \<Rightarrow> a
      | Undefined \<Rightarrow> b)"

definition MODEL_MAP :: "(string \<times> string) list" where
  "MODEL_MAP =
     [(''Sofa'', ''/models/canba.glb''),
      (''Table'', ''/models/table.glb''),
      (''Bed'', ''/models/bed-2.glb''),
      (''Bookshelf'', ''/models/bookshelf.glb''),
      (''Dresser'', ''/models/dresser.glb''),
      (''Plant'', ''/models/plant.glb''),
      (''default'', ''/models/cube.glb'')]"

definition MODEL_SCALES :: "(string \<times> rat) list" where
  "MODEL_SCALES =
     [(''Sofa'', 1), (''Table'', 18 / 100), (''Bed'', 19 / 10), (''Bookshelf'', 45 / 100),
      (''Dresser'', 4 / 10), (''Plant'', 3 / 10), (''default'', 5 / 10)]"

definition MODEL_Y_POSITIONS :: "(string \<times> rat) list" where
  "MODEL_Y_POSITIONS =
     [(''Sofa'', 0), (''Table'', 7 / 10), (''Bed'', 5 / 10), (''Bookshelf'', 5 / 10),
      (''Dresser'', 3 / 10), (''Plant'', 1 / 10), (''default'', 0)]"

definition MODEL_ROTATIONS :: "(string \<times> rat) list" where
  "MODEL_ROTATIONS =
     [(''Sofa'', 0), (''Table'', 0), (''Bed'', 0), (''Bookshelf'', 0),
      (''Dresser'', 0), (''Plant'', 0), (''default'', 0)]"

record topDownSettings =
  cameraHeight :: rat
  rotationOffset :: rat
  settings_scale :: rat

definition TOP_DOWN_ADJUSTMENTS :: "(string \<times> topDownSettings) list" where
  "TOP_DOWN_ADJUSTMENTS =
     [(''Sofa'', \<lparr>cameraHeight = 8, rotationOffset = 0, settings_scale = 13 / 10\<rparr>),
      (''Table'', \<lparr>cameraHeight = 7, rotationOffset = 0, settings_scale = 12 / 10\<rparr>),
      (''Bed'', \<lparr>cameraHeight = 12, rotationOffset = 0, settings_scale = 15 / 10\<rparr>),
      (''Bookshelf'', \<lparr>cameraHeight = 10, rotationOffset = 0, settings_scale = 14 / 10\<rparr>),
      (''Dresser'', \<lparr>cameraHeight = 6, rotationOffset = 0, settings_scale = 12 / 10\<rparr>),
      (''Plant'', \<lparr>cameraHeight = 5, rotationOffset = 0, settings_scale = 1\<rparr>),
      (''default'', \<lparr>cameraHeight = 8, rotationOffset = 0, settings_scale = 12 / 10\<rparr>)]"

definition getModelPath :: "string \<Rightarrow> string js_value" where
  "getModelPath furnitureType =
     js_or (\<lambda>p. p \<noteq> []) (js_get MODEL_MAP furnitureType) (js_get MODEL_MAP ''default'')"

record modelConfig =
  config_scale :: "rat js_value"
  config_yPosition :: "rat js_value"
  config_rotation :: "rat js_value"

definition getModelConfig :: "string \<Rightarrow> modelConfig" where
  "getModelConfig furnitureType =
     \<lparr>config_scale =
        js_or (\<lambda>n. n \<noteq> 0) (js_get MODEL_SCALES furnitureType) (js_get MODEL_SCALES ''default''),
      config_yPosition =
        js_or (\<lambda>n. n \<noteq> 0) (js_get MODEL_Y_POSITIONS furnitureType)
          (js_get MODEL_Y_POSITIONS ''default''),
      config_rotation =
        js_or (\<lambda>n. n \<noteq> 0) (js_get MODEL_ROTATIONS furnitureType)
          (js_get MODEL_ROTATIONS ''default'')\<rparr>"

definition getTopDownViewSettings :: "string \<Rightarrow> topDownSettings js_value" where
  "getTopDownViewSettings modelType =
     js_or (\<lambda>_. True) (js_get TOP_DOWN_ADJUSTMENTS modelType)
       (js_get TOP_DOWN_ADJUSTMENTS ''default'')"

section \<open>Example states\<close>

text \<open>\<open>THREE.MathUtils.degToRad\<close> multiplies by pi / 180.\<close>

definition degToRad :: "int \<Rightarrow> real" where
  "degToRad degrees = of_int degrees * (pi / 180)"

definition example_sofa :: furnitureItem where
  "example_sofa = \<lparr>item_id = 1, item_x = 0, item_y = 50, item_width = 100,
                    item_height = 60, item_fill = ''#8B4513'', item_name = ''Sofa'',
                    item_rotation = Some 300\<rparr>"

definition example_table :: furnitureItem where
  "example_table = \<lparr>item_id = 2, item_x = 200, item_y = 150, item_width = 80,
                     item_height = 80, item_fill = ''#A0522D'', item_name = ''Coffee Table'',
                     item_rotation = None\<rparr>"

definition example_design :: design where
  "example_design = \<lparr>design_id = ''1'', design_name = ''Living Room'',
                      design_roomConfig = baseline_room,
                      design_furniture = [example_sofa, example_table]\<rparr>"

text \<open>A viewer on that design with the sofa selected: the scene holds the floor and one
  model per item, each where \<open>loadModel\<close> puts it.\<close>

definition example_viewer :: "real viewer" where
  "example_viewer =
     \<lparr>v_selectedModelId = Some 1,
      v_design = Some example_design,
      v_sceneRef = Some
        [\<lparr>node_itemId = None, node_position_x = 0, node_position_z = 0, node_rotation_y = 0\<rparr>,
         \<lparr>node_itemId = Some 1, node_position_x = - 4, node_position_z = - 12 / 5,
          node_rotation_y = degToRad 300\<rparr>,
         \<lparr>node_itemId = Some 2, node_position_x = - 1 / 5, node_position_z = - 1 / 5,
          node_rotation_y = degToRad 0\<rparr>],
      v_console = [],
      v_info = []\<rparr>"




text \<open>The editor as it opens on a new design, and an editor holding the example design
  with the sofa selected.\<close>

definition new_editor :: editor where
  "new_editor =
     \<lparr>e_roomConfig = baseline_room, e_furniture = [], e_selectedId = None, e_info = [],
      e_modelPreviews = Map.empty, e_topDownImageCache = Map.empty, e_calls = []\<rparr>"

definition example_editor :: editor where
  "example_editor =
     new_editor\<lparr>e_furniture := [example_sofa, example_table], e_selectedId := Some 1\<rparr>"

text \<open>A transform handle released at 45 degrees counter-clockwise; the canvas reports
  angles between -180 and 180.\<close>

definition example_node :: konvaNode where
  "example_node = \<lparr>k_x = 0, k_y = 50, k_width = 100, k_height = 60, k_scaleX = 1,
                    k_scaleY = 1, k_rotation = - 45\<rparr>"

text \<open>Two sofas of one colour and rotation, apart in identity and position; a render
  that always throws (no WebGL context, say) and one that always yields an image.\<close>

definition sofa_a :: furnitureItem where
  "sofa_a = \<lparr>item_id = 1, item_x = 50, item_y = 50, item_width = 100, item_height = 60,
              item_fill = ''#8B4513'', item_name = ''Sofa'', item_rotation = Some 0\<rparr>"

definition sofa_b :: furnitureItem where
  "sofa_b = \<lparr>item_id = 2, item_x = 200, item_y = 150, item_width = 100, item_height = 60,
              item_fill = ''#8B4513'', item_name = ''Sofa'', item_rotation = Some 0\<rparr>"

definition two_sofas :: editor where
  "two_sofas = new_editor\<lparr>e_furniture := [sofa_a, sofa_b]\<rparr>"

definition failing_render :: "string \<Rightarrow> string \<Rightarrow> int \<Rightarrow> string option" where
  "failing_render modelName color rotation = None"

definition working_render :: "string \<Rightarrow> string \<Rightarrow> int \<Rightarrow> string option" where
  "working_render modelName color rotation = Some (''data:image/png;base64,'' @ modelName)"

text \<open>The two designs that \<open>designService.js\<close> seeds the storage with.\<close>

definition seed_designs :: "object list" where
  "seed_designs =
     [[(''id'', JStr ''1''),
       (''name'', JStr ''Living Room''),
       (''lastModified'', JStr ''2023-05-10''),
       (''thumbnail'', JStr []),
       (''userId'', JStr ''test123''),
       (''roomConfig'', JObj [(''width'', JNum 500), (''height'', JNum 400),
                              (''color'', JStr ''#F5F5DC''), (''wallColor'', JStr ''#F5F5F5'')]),
       (''furniture'', JArr
          [JObj [(''id'', JNum 1), (''x'', JNum 50), (''y'', JNum 50), (''width'', JNum 100),
                 (''height'', JNum 60), (''fill'', JStr ''#8B4513''), (''name'', JStr ''Sofa'')],
           JObj [(''id'', JNum 2), (''x'', JNum 200), (''y'', JNum 150), (''width'', JNum 80),
                 (''height'', JNum 80), (''fill'', JStr ''#A0522D''),
                 (''name'', JStr ''Coffee Table'')]])],
      [(''id'', JStr ''2''),
       (''name'', JStr ''Bedroom''),
       (''lastModified'', JStr ''2023-05-15''),
       (''thumbnail'', JStr []),
       (''userId'', JStr ''test123''),
       (''roomConfig'', JObj [(''width'', JNum 450), (''height'', JNum 350),
                              (''color'', JStr ''#E6E6FA'')]),
       (''furniture'', JArr
          [JObj [(''id'', JNum 1), (''x'', JNum 150), (''y'', JNum 100), (''width'', JNum 120),
                 (''height'', JNum 200), (''fill'', JStr ''#8B4513''), (''name'', JStr ''Bed'')],
           JObj [(''id'', JNum 2), (''x'', JNum 300), (''y'', JNum 120), (''width'', JNum 50),
                 (''height'', JNum 50), (''fill'', JStr ''#A0522D''),
                 (''name'', JStr ''Nightstand'')]])]]"

definition example_update :: object where
  "example_update = [(''name'', JStr ''Den''), (''userId'', JStr ''someone-else'')]"

section \<open>Theorems\<close>

subsection \<open>Lists, the selection and the scene\<close>

lemma findIndex_Some:
  "findIndex P xs = Some i \<Longrightarrow> i < length xs \<and> P (xs ! i) \<and> (\<forall>j<i. \<not> P (xs ! j))"
proof (induction xs arbitrary: i)
  case Nil
  then show ?case by simp
next
  case (Cons a as)
  show ?case
  proof (cases "P a")
    case True
    with Cons.prems show ?thesis by simp
  next
    case False
    with Cons.prems obtain k where k: "findIndex P as = Some k" "i = Suc k"
      by auto
    from Cons.IH [OF k(1)] False k(2) show ?thesis
      by (auto simp: less_Suc_eq_0_disj)
  qed
qed

lemma findIndex_None: "findIndex P xs = None \<longleftrightarrow> (\<forall>x\<in>set xs. \<not> P x)"
  by (induction xs) auto

lemma findIndex_first:
  "i < length xs \<Longrightarrow> P (xs ! i) \<Longrightarrow> (\<forall>j<i. \<not> P (xs ! j)) \<Longrightarrow> findIndex P xs = Some i"
proof (induction xs arbitrary: i)
  case Nil
  then show ?case by simp
next
  case (Cons a as)
  show ?case
  proof (cases i)
    case 0
    with Cons.prems show ?thesis by simp
  next
    case (Suc k)
    with Cons.prems have "\<not> P a" by auto
    moreover have "findIndex P as = Some k"
      using Cons.prems Suc by (intro Cons.IH) auto
    ultimately show ?thesis using Suc by simp
  qed
qed

lemma findIndex_update:
  assumes "findIndex P xs = Some i" and "P y"
  shows "findIndex P (xs[i := y]) = Some i"
proof -
  from findIndex_Some [OF assms(1)]
  have i: "i < length xs" and before: "\<forall>j<i. \<not> P (xs ! j)" by auto
  show ?thesis
    using i before assms(2) by (intro findIndex_first) auto
qed

lemma selected_item_Some:
  assumes "selected_item st = Some item"
  obtains sel d nodes i where
    "v_selectedModelId st = Some sel" "sel \<noteq> 0" "v_design st = Some d"
    "v_sceneRef st = Some nodes"
    "findIndex (\<lambda>it. item_id it = sel) (design_furniture d) = Some i"
    "item = design_furniture d ! i" "item_id item = sel" "i < length (design_furniture d)"
proof -
  from assms obtain sel d nodes where
    s: "v_selectedModelId st = Some sel" "v_design st = Some d" "v_sceneRef st = Some nodes"
    by (auto simp: selected_item_def split: option.splits)
  with assms have nz: "sel \<noteq> 0"
    by (auto simp: selected_item_def split: if_splits)
  with assms s obtain i where
    i: "findIndex (\<lambda>it. item_id it = sel) (design_furniture d) = Some i"
       "item = design_furniture d ! i"
    by (auto simp: selected_item_def)
  from findIndex_Some [OF i(1)] i(2) have "item_id item = sel" "i < length (design_furniture d)"
    by auto
  with s nz i that show thesis by blast
qed

lemma traverse_edit_found:
  "snd (traverse_edit sel f nodes) \<longleftrightarrow> filter (\<lambda>child. node_itemId child = Some sel) nodes \<noteq> []"
  by (auto simp: traverse_edit_def list_ex_iff filter_empty_conv)











lemma rotateSelectedFurniture_found:
  assumes "v_selectedModelId st = Some sel" "sel \<noteq> 0" "v_design st = Some d"
    "v_sceneRef st = Some nodes"
    "findIndex (\<lambda>it. item_id it = sel) (design_furniture d) = Some i"
    "filter (\<lambda>child. node_itemId child = Some sel) nodes \<noteq> []"
  shows "\<exists>newRotation.
     rotateSelectedFurniture d2r degrees st =
       st\<lparr>v_sceneRef := Some (fst (traverse_edit sel
               (\<lambda>child. child\<lparr>node_rotation_y := d2r newRotation\<rparr>) nodes)),
          v_design := Some (d\<lparr>design_furniture :=
             (design_furniture d)[i := (design_furniture d ! i)\<lparr>item_rotation := Some newRotation\<rparr>]\<rparr>),
          v_info := v_info st @ [Rotated (item_name (design_furniture d ! i)) newRotation]\<rparr>
     \<and> newRotation =
         (if js_rem (rotation_or_0 (design_furniture d ! i) + degrees) 360 < 0
          then js_rem (rotation_or_0 (design_furniture d ! i) + degrees) 360 + 360
          else js_rem (rotation_or_0 (design_furniture d ! i) + degrees) 360)"
proof -
  have found: "snd (traverse_edit sel f nodes)" for f :: "'a node \<Rightarrow> 'a node"
    using assms(6) by (simp add: traverse_edit_found)
  show ?thesis
    using assms(1-5) found
    by (simp add: rotateSelectedFurniture_def Let_def split_beta)
qed





subsection \<open>Rotation arithmetic\<close>

lemma js_rem_bounds:
  assumes "0 < b"
  shows "- b < js_rem a b" and "js_rem a b < b"
proof -
  define m where "m = \<bar>a\<bar> mod \<bar>b\<bar>"
  have m: "0 \<le> m" "m < b"
    using assms by (simp_all add: m_def)
  have r: "js_rem a b = sgn a * m"
    by (simp add: js_rem_def m_def)
  show "- b < js_rem a b"
    unfolding r using m by (simp add: sgn_if)
  show "js_rem a b < b"
    unfolding r using m by (simp add: sgn_if)
qed

lemma js_rem_nonneg:
  assumes "0 \<le> a"
  shows "0 \<le> js_rem a b"
proof -
  define m where "m = \<bar>a\<bar> mod \<bar>b\<bar>"
  have "0 \<le> m"
    by (cases "b = 0") (simp_all add: m_def)
  moreover have "js_rem a b = sgn a * m"
    by (simp add: js_rem_def m_def)
  ultimately show ?thesis
    using assms by (simp add: sgn_if)
qed

lemma normalised_rotation:
  "0 \<le> (if js_rem a 360 < 0 then js_rem a 360 + 360 else js_rem a 360)"
  "(if js_rem a 360 < 0 then js_rem a 360 + 360 else js_rem a 360) < 360"
  using js_rem_bounds [of 360 a] by auto

text \<open>The rotate steps of the 3D viewer store an angle in [0, 360).\<close>

lemma rotateSelectedFurniture_range:
  assumes "selected_item st = Some item" and "selected_nodes st \<noteq> []"
  shows "\<exists>item' r. selected_item (rotateSelectedFurniture d2r degrees st) = Some item'
           \<and> item_rotation item' = Some r \<and> 0 \<le> r \<and> r < 360"
proof -
  from assms(1) obtain s d nodes i where s:
    "v_selectedModelId st = Some s" "s \<noteq> 0" "v_design st = Some d"
    "v_sceneRef st = Some nodes"
    "findIndex (\<lambda>it. item_id it = s) (design_furniture d) = Some i"
    and item: "item = design_furniture d ! i" "item_id item = s"
    by (rule selected_item_Some)
  from assms(2) s(1,4) have fd: "filter (\<lambda>child. node_itemId child = Some s) nodes \<noteq> []"
    by (simp add: selected_nodes_def)
  from rotateSelectedFurniture_found [OF s fd, of d2r degrees]
  obtain r where st': "rotateSelectedFurniture d2r degrees st =
       st\<lparr>v_sceneRef := Some (fst (traverse_edit s
               (\<lambda>child. child\<lparr>node_rotation_y := d2r r\<rparr>) nodes)),
          v_design := Some (d\<lparr>design_furniture :=
             (design_furniture d)[i := (design_furniture d ! i)\<lparr>item_rotation := Some r\<rparr>]\<rparr>),
          v_info := v_info st @ [Rotated (item_name (design_furniture d ! i)) r]\<rparr>"
    and r: "r = (if js_rem (rotation_or_0 (design_furniture d ! i) + degrees) 360 < 0
          then js_rem (rotation_or_0 (design_furniture d ! i) + degrees) 360 + 360
          else js_rem (rotation_or_0 (design_furniture d ! i) + degrees) 360)"
    by blast
  from r have range: "0 \<le> r" "r < 360"
    using normalised_rotation [of "rotation_or_0 (design_furniture d ! i) + degrees"] by simp_all
  let ?item' = "(design_furniture d ! i)\<lparr>item_rotation := Some r\<rparr>"
  have "selected_item (rotateSelectedFurniture d2r degrees st) = Some ?item'"
    using s findIndex_update [OF s(5), of ?item'] findIndex_Some [OF s(5)]
    by (simp add: st' selected_item_def)
  with range show ?thesis by simp
qed

text \<open>The rotate steps of the 2D editor stay in [0, 360) from a stored angle that is
  not negative.\<close>

lemma rotate_step_argument_range:
  assumes "0 \<le> r" and "0 \<le> step"
  shows "0 \<le> js_rem (r + step) 360" and "js_rem (r + step) 360 < 360"
  using assms js_rem_nonneg [of "r + step" 360] js_rem_bounds [of 360 "r + step"] by simp_all

subsection \<open>Deleting\<close>

lemma deleteSelected_absent:
  assumes "truthy_id (e_selectedId st)"
    and "\<forall>item\<in>set (e_furniture st). Some (item_id item) \<noteq> e_selectedId st"
  shows "fst (deleteSelected st) \<noteq> None"
    and "e_furniture (snd (deleteSelected st)) = e_furniture st"
proof -
  have "find (\<lambda>item. Some (item_id item) = e_selectedId st) (e_furniture st) = None"
    using assms(2) by (simp add: find_None_iff)
  moreover have "filter (\<lambda>item. Some (item_id item) \<noteq> e_selectedId st) (e_furniture st) =
                   e_furniture st"
    using assms(2) by (simp add: filter_id_conv)
  ultimately show "fst (deleteSelected st) \<noteq> None"
    and "e_furniture (snd (deleteSelected st)) = e_furniture st"
    using assms(1) by (simp_all add: deleteSelected_def Let_def)
qed

text \<open>Deleting a design under an id that no stored design carries leaves the list of
  designs as it was and returns \<open>true\<close>.\<close>

lemma deleteDesign_absent:
  assumes "\<forall>d\<in>set (getDesigns st). map_of d ''id'' \<noteq> Some (JStr ident)"
  shows "fst (deleteDesign st ident)"
    and "getDesigns (snd (deleteDesign st ident)) = getDesigns st"
  using assms by (simp_all add: deleteDesign_def getDesigns_def filter_id_conv split: option.splits)

subsection \<open>Stored designs\<close>




subsection \<open>The catalog\<close>

text \<open>A type name that is neither in the catalog nor a property of \<open>Object.prototype\<close>
  resolves to the \<open>default\<close> entries, and no lookup comes back \<open>undefined\<close>.\<close>

lemma catalog_default:
  assumes "name \<notin> fst ` set MODEL_MAP" and "name \<notin> set Object_prototype"
  shows "getModelPath name = Own ''/models/cube.glb''"
    and "getModelConfig name =
           \<lparr>config_scale = Own (5 / 10), config_yPosition = Own 0, config_rotation = Own 0\<rparr>"
    and "getTopDownViewSettings name =
           Own \<lparr>cameraHeight = 8, rotationOffset = 0, settings_scale = 12 / 10\<rparr>"
  using assms
  by (simp_all add: getModelPath_def getModelConfig_def getTopDownViewSettings_def js_get_def
      js_or_def MODEL_MAP_def MODEL_SCALES_def MODEL_Y_POSITIONS_def MODEL_ROTATIONS_def
      TOP_DOWN_ADJUSTMENTS_def)

lemma js_or_defined: "b \<noteq> Undefined \<Longrightarrow> js_or truthy a b \<noteq> Undefined"
  by (simp add: js_or_def split: js_value.splits)

lemma catalog_never_undefined:
  "getModelPath name \<noteq> Undefined"
  "config_scale (getModelConfig name) \<noteq> Undefined"
  "config_yPosition (getModelConfig name) \<noteq> Undefined"
  "config_rotation (getModelConfig name) \<noteq> Undefined"
  "getTopDownViewSettings name \<noteq> Undefined"
  unfolding getModelPath_def getModelConfig_def getTopDownViewSettings_def
  by (simp_all add: js_or_defined js_get_def MODEL_MAP_def MODEL_SCALES_def
      MODEL_Y_POSITIONS_def MODEL_ROTATIONS_def TOP_DOWN_ADJUSTMENTS_def)

subsection \<open>The preview pass\<close>

lemma createTopDownImage_truthy:
  assumes "\<forall>n c r. truthy_str (render n c r)"
  shows "truthy_str (fst (createTopDownImage render cache n c r))"
proof (cases "truthy_str (cache (n @ ''-'' @ c @ ''-'' @ Number_toString r))")
  case True
  then show ?thesis by (simp add: createTopDownImage_def)
next
  case False
  from assms have "truthy_str (render n c r)" by blast
  with False show ?thesis
    by (auto simp: createTopDownImage_def truthy_str_def split: option.splits)
qed

lemma preview_step_cached:
  "truthy_str (newPreviews s (item_cacheKey item)) \<Longrightarrow> preview_step render s item = s"
  by (simp add: preview_step_def)

lemma preview_step_fresh:
  assumes ok: "\<forall>n c r. truthy_str (render n c r)"
    and fresh: "\<not> truthy_str (newPreviews s (item_cacheKey item))"
  shows "calls (preview_step render s item) = calls s @ [item_cacheKey item]"
    and "truthy_str (newPreviews (preview_step render s item) k) \<longleftrightarrow>
           truthy_str (newPreviews s k) \<or> k = item_cacheKey item"
    and "updatedPreviews (preview_step render s item)"
proof -
  obtain u cache' where c:
    "createTopDownImage render (imageCache s) (item_name item) (item_fill item)
       (rotation_or_0 item) = (Some u, cache')" "u \<noteq> []"
    using createTopDownImage_truthy [OF ok, of "imageCache s" "item_name item" "item_fill item"
        "rotation_or_0 item"]
    by (cases "createTopDownImage render (imageCache s) (item_name item) (item_fill item)
       (rotation_or_0 item)") (auto simp: truthy_str_def split: option.splits)
  have step: "preview_step render s item =
     s\<lparr>imageCache := cache', calls := calls s @ [item_cacheKey item],
       newPreviews := (newPreviews s)(item_cacheKey item \<mapsto> u), updatedPreviews := True\<rparr>"
    using fresh c by (simp add: preview_step_def Let_def)
  show "calls (preview_step render s item) = calls s @ [item_cacheKey item]"
    by (simp add: step)
  show "truthy_str (newPreviews (preview_step render s item) k) \<longleftrightarrow>
           truthy_str (newPreviews s k) \<or> k = item_cacheKey item"
    using c(2) fresh by (auto simp: step truthy_str_def)
  show "updatedPreviews (preview_step render s item)"
    by (simp add: step)
qed

lemma updatedPreviews_step:
  "updatedPreviews s \<Longrightarrow> updatedPreviews (preview_step render s item)"
  by (simp add: preview_step_def Let_def split_beta split: option.splits)

lemma updatedPreviews_foldl:
  "updatedPreviews s \<Longrightarrow> updatedPreviews (foldl (preview_step render) s items)"
  by (induction items arbitrary: s) (simp_all add: updatedPreviews_step)

lemma preview_loop:
  assumes ok: "\<forall>n c r. truthy_str (render n c r)"
  shows "\<exists>new. calls (foldl (preview_step render) s items) = calls s @ new
           \<and> distinct new
           \<and> set new = {k \<in> item_cacheKey ` set items. \<not> truthy_str (newPreviews s k)}
           \<and> (\<forall>k. truthy_str (newPreviews (foldl (preview_step render) s items) k) \<longleftrightarrow>
                    truthy_str (newPreviews s k) \<or> k \<in> item_cacheKey ` set items)
           \<and> (new \<noteq> [] \<longrightarrow> updatedPreviews (foldl (preview_step render) s items))"
proof (induction items arbitrary: s)
  case Nil
  show ?case by simp
next
  case (Cons item items)
  let ?s1 = "preview_step render s item"
  from Cons.IH [of ?s1] obtain new1 where
    c1: "calls (foldl (preview_step render) ?s1 items) = calls ?s1 @ new1"
    and d1: "distinct new1"
    and s1: "set new1 = {k \<in> item_cacheKey ` set items. \<not> truthy_str (newPreviews ?s1 k)}"
    and t1: "\<And>k. truthy_str (newPreviews (foldl (preview_step render) ?s1 items) k) \<longleftrightarrow>
                    truthy_str (newPreviews ?s1 k) \<or> k \<in> item_cacheKey ` set items"
    and u1: "new1 \<noteq> [] \<longrightarrow> updatedPreviews (foldl (preview_step render) ?s1 items)"
    by blast
  show ?case
  proof (cases "truthy_str (newPreviews s (item_cacheKey item))")
    case True
    then have same: "?s1 = s" by (rule preview_step_cached)
    have "set new1 = {k \<in> item_cacheKey ` set (item # items). \<not> truthy_str (newPreviews s k)}"
      using True s1 by (auto simp: same)
    moreover have "truthy_str (newPreviews (foldl (preview_step render) s (item # items)) k) \<longleftrightarrow>
                    truthy_str (newPreviews s k) \<or> k \<in> item_cacheKey ` set (item # items)" for k
      using True t1 [of k] by (auto simp: same)
    ultimately show ?thesis
      using c1 d1 u1 by (auto simp: same)
  next
    case False
    note step = preview_step_fresh [OF ok False]
    have upd: "updatedPreviews (foldl (preview_step render) ?s1 items)"
      using step(3) by (rule updatedPreviews_foldl)
    let ?new = "item_cacheKey item # new1"
    have "calls (foldl (preview_step render) s (item # items)) = calls s @ ?new"
      using c1 step(1) by simp
    moreover have "distinct ?new"
      using d1 s1 step(2) by auto
    moreover have "set ?new =
        {k \<in> item_cacheKey ` set (item # items). \<not> truthy_str (newPreviews s k)}"
      using False s1 step(2) by auto
    moreover have "truthy_str (newPreviews (foldl (preview_step render) s (item # items)) k) \<longleftrightarrow>
                    truthy_str (newPreviews s k) \<or> k \<in> item_cacheKey ` set (item # items)" for k
      using t1 [of k] step(2) [of k] by auto
    moreover have "updatedPreviews (foldl (preview_step render) s (item # items))"
      using upd by simp
    ultimately show ?thesis by blast
  qed
qed



lemma Number_toString_0: "Number_toString 0 = ''0''"
  by (simp add: Number_toString_def digits.simps)

lemma example_keys:
  "item_cacheKey sofa_a = ''Sofa-#8B4513-0''" "item_cacheKey sofa_b = ''Sofa-#8B4513-0''"
  by (simp_all add: item_cacheKey_def rotation_or_0_def Number_toString_0 sofa_a_def sofa_b_def)

subsection \<open>The claims\<close>

text \<open>
  C1 (as stated): at the regression input the world X is -2.0. It is not: the formula gives
  250 * 0.02 - 5 + 1 = 1.
\<close>

theorem C1_baseline_not_minus_two:
  "fst (loadModel_xz baseline_room baseline_item) \<noteq> - 2"
  by (simp add: loadModel_xz_def baseline_room_def baseline_item_def scale_def)

text \<open>
  C1 (amended): both the initial placement and the placement after a move apply
  world_x = editorX * scale - roomWidth * scale / 2 + itemWidth * scale / 2 and
  world_z = editorY * scale - roomHeight * scale / 2 + itemHeight * scale / 2 with the fixed
  scale 0.02, the two conversions agree on an item's own position, and the regression input
  (x = 250, y = 200, 100 by 60, room 500 by 400) lands at world X = 1 and world Z = 0.6.
\<close>

theorem C1_toWorld_formula:
  "loadModel_xz room item =
     (item_x item * (2/100) - room_width room * (2/100) / 2 + item_width item * (2/100) / 2,
      item_y item * (2/100) - room_height room * (2/100) / 2 + item_height item * (2/100) / 2)
   \<and> move_xz room item newX newY =
     (newX * (2/100) - room_width room * (2/100) / 2 + item_width item * (2/100) / 2,
      newY * (2/100) - room_height room * (2/100) / 2 + item_height item * (2/100) / 2)
   \<and> move_xz room item (item_x item) (item_y item) = loadModel_xz room item
   \<and> loadModel_xz baseline_room baseline_item = (1, 6/10)"
  by (simp add: loadModel_xz_def move_xz_def baseline_room_def baseline_item_def scale_def)

text \<open>
  C2: every operation that updates an item's rotation stores a value in [0, 360). The code
  does not keep this: the rotation slider reaches 360 and its handler stores it as it is
  (in the editor and in the viewer), the transform handle stores the angle the canvas
  reports (here -45), and the editor's rotate step from a negative angle stays negative
  (-45 + 15 gives -30). The step of the claim's example holds: +90 on 300 stores 30.
\<close>

theorem C2_rotation_out_of_range:
  "360 \<in> set slider_values
   \<and> map item_rotation (e_furniture (slider_onChange 360 example_editor)) = [Some 360, None]
   \<and> map item_rotation
        (the_furniture (Viewer3D_updateFurnitureRotation degToRad 360 example_viewer)) =
      [Some 360, None]
   \<and> map item_rotation (e_furniture (onTransformEnd example_sofa example_node example_editor)) =
      [Some (- 45), None]
   \<and> map item_rotation
        (e_furniture (rotate_step 15 (onTransformEnd example_sofa example_node example_editor))) =
      [Some (- 30), None]
   \<and> map item_rotation (e_furniture (rotate_step 90 example_editor)) = [Some 30, None]"
  by (simp add: slider_values_def slider_onChange_def Editor2D_updateFurnitureRotation_def
      Viewer3D_updateFurnitureRotation_def traverse_edit_def the_furniture_def
      onTransformEnd_def rotate_step_def selectedItem_def rotation_or_0_def js_rem_def
      truthy_id_def example_editor_def new_editor_def example_viewer_def example_design_def
      example_sofa_def example_table_def example_node_def)






text \<open>
  C5 (as stated): every call of addFurniture assigns an identity that collides with no
  other item's. Two calls that read the same clock value give two items one identity.
\<close>

theorem C5_same_clock_reading_collides:
  "\<not> distinct (map item_id (e_furniture
       (addFurniture 1700000000000 ''table'' (addFurniture 1700000000000 ''sofa'' new_editor))))"
  by (simp add: addFurniture_def new_editor_def furnitureTypes_def)

text \<open>
  C5 (amended): addFurniture appends one item, whose identity is the clock reading
  Date.now() of the call, and leaves the items before it as they were; the identities of
  the list are pairwise distinct afterwards exactly when they were before and the clock
  reading differs from every one of them.
\<close>

theorem C5_identity_is_clock_reading:
  "e_furniture (addFurniture now type st) =
     e_furniture st @ [last (e_furniture (addFurniture now type st))]
   \<and> item_id (last (e_furniture (addFurniture now type st))) = now
   \<and> (distinct (map item_id (e_furniture (addFurniture now type st))) \<longleftrightarrow>
        distinct (map item_id (e_furniture st)) \<and> now \<notin> item_id ` set (e_furniture st))"
  by (auto simp: addFurniture_def Let_def)

text \<open>
  C6 (as stated): one preview-generation pass issues exactly one generation call per cache
  key, however many items share it. With a render that fails, the pass over two sofas of one
  key calls createTopDownImage for that key twice.
\<close>

theorem C6_two_calls_for_one_key:
  "item_cacheKey sofa_a = item_cacheKey sofa_b
   \<and> e_calls (generatePreviews failing_render two_sofas) =
       [''Sofa-#8B4513-0'', ''Sofa-#8B4513-0'']"
proof -
  have c: "createTopDownImage failing_render cache n c r = (None, cache)"
    if "cache (n @ ''-'' @ c @ ''-'' @ Number_toString r) = None" for cache n c r
    using that by (simp add: createTopDownImage_def truthy_str_def failing_render_def)
  have step: "preview_step failing_render s item = s\<lparr>calls := calls s @ [item_cacheKey item]\<rparr>"
    if "newPreviews s (item_cacheKey item) = None" "imageCache s (item_cacheKey item) = None"
    for s item
    using that c [of "imageCache s" "item_name item" "item_fill item" "rotation_or_0 item"]
    by (simp add: preview_step_def Let_def truthy_str_def item_cacheKey_def)
  show ?thesis
    by (simp add: generatePreviews_def two_sofas_def new_editor_def step example_keys)
qed

text \<open>
  C6 (amended): two items of the same type name, fill colour and rotation have the same
  cache key, whatever their identities and positions; and in one pass of generatePreviews
  whose generations all succeed, the calls issued are, once each, the cache keys of the
  furniture that the preview map did not hold (several items of one key cause one call, a
  key already held causes none), and afterwards the preview map holds the key of every item.
\<close>

theorem C6_one_call_per_key:
  assumes ok: "\<forall>n c r. truthy_str (render n c r)"
  shows "(\<forall>a b. item_name a = item_name b \<and> item_fill a = item_fill b
              \<and> item_rotation a = item_rotation b \<longrightarrow> item_cacheKey a = item_cacheKey b)
       \<and> (\<exists>new. e_calls (generatePreviews render st) = e_calls st @ new
              \<and> distinct new
              \<and> set new = {k \<in> item_cacheKey ` set (e_furniture st).
                              \<not> truthy_str (e_modelPreviews st k)})
       \<and> (\<forall>item\<in>set (e_furniture st).
              truthy_str (e_modelPreviews (generatePreviews render st) (item_cacheKey item)))"
proof -
  have key: "\<forall>a b. item_name a = item_name b \<and> item_fill a = item_fill b
              \<and> item_rotation a = item_rotation b \<longrightarrow> item_cacheKey a = item_cacheKey b"
    by (simp add: item_cacheKey_def rotation_or_0_def)
  let ?init = "\<lparr>newPreviews = e_modelPreviews st, updatedPreviews = False,
              imageCache = e_topDownImageCache st, calls = []\<rparr>"
  let ?s = "foldl (preview_step render) ?init (e_furniture st)"
  from preview_loop [OF ok, where s = ?init and items = "e_furniture st"] obtain new where
    c: "calls ?s = new" and d: "distinct new"
    and n: "set new = {k \<in> item_cacheKey ` set (e_furniture st).
                         \<not> truthy_str (e_modelPreviews st k)}"
    and t: "\<And>k. truthy_str (newPreviews ?s k) \<longleftrightarrow>
              truthy_str (e_modelPreviews st k) \<or> k \<in> item_cacheKey ` set (e_furniture st)"
    and u: "new \<noteq> [] \<longrightarrow> updatedPreviews ?s"
    by auto
  have calls: "e_calls (generatePreviews render st) = e_calls st @ new"
    using c n by (auto simp: generatePreviews_def Let_def)
  have cached: "truthy_str (e_modelPreviews (generatePreviews render st) (item_cacheKey item))"
    if "item \<in> set (e_furniture st)" for item
  proof (cases "updatedPreviews ?s")
    case True
    with that t [of "item_cacheKey item"] show ?thesis
      by (auto simp: generatePreviews_def Let_def)
  next
    case False
    with u have "new = []" by blast
    with n that have "truthy_str (e_modelPreviews st (item_cacheKey item))" by auto
    with False that show ?thesis
      by (auto simp: generatePreviews_def Let_def)
  qed
  from key calls d n cached show ?thesis by blast
qed

theorem C6_one_call_per_key_witness:
  "(\<forall>n c r. truthy_str (working_render n c r))
   \<and> item_cacheKey sofa_a = item_cacheKey sofa_b
   \<and> distinct (e_calls (generatePreviews working_render two_sofas))
   \<and> set (e_calls (generatePreviews working_render two_sofas)) = {''Sofa-#8B4513-0''}
   \<and> truthy_str (e_modelPreviews (generatePreviews working_render two_sofas)
                    (item_cacheKey sofa_b))"
proof -
  have ok: "\<forall>n c r. truthy_str (working_render n c r)"
    by (simp add: working_render_def truthy_str_def)
  have furniture: "e_furniture two_sofas = [sofa_a, sofa_b]"
    by (simp add: two_sofas_def)
  have none: "e_calls two_sofas = []"
    by (simp add: two_sofas_def new_editor_def)
  have fresh: "\<not> truthy_str (e_modelPreviews two_sofas k)" for k
    by (simp add: two_sofas_def new_editor_def truthy_str_def)
  have same: "item_name sofa_a = item_name sofa_b \<and> item_fill sofa_a = item_fill sofa_b
              \<and> item_rotation sofa_a = item_rotation sofa_b"
    by (simp add: sofa_a_def sofa_b_def)
  note C6 = C6_one_call_per_key [OF ok, of two_sofas]
  from C6 same have key: "item_cacheKey sofa_a = item_cacheKey sofa_b"
    by blast
  from C6 obtain new where new:
    "e_calls (generatePreviews working_render two_sofas) = e_calls two_sofas @ new"
    "distinct new"
    "set new = {k \<in> item_cacheKey ` set (e_furniture two_sofas).
                  \<not> truthy_str (e_modelPreviews two_sofas k)}"
    by blast
  have "{k \<in> item_cacheKey ` set (e_furniture two_sofas).
                  \<not> truthy_str (e_modelPreviews two_sofas k)} = {''Sofa-#8B4513-0''}"
    unfolding furniture using fresh example_keys by auto
  with new(3) have only: "set new = {''Sofa-#8B4513-0''}"
    by simp
  have "sofa_b \<in> set (e_furniture two_sofas)"
    unfolding furniture by simp
  with C6 have cached: "truthy_str (e_modelPreviews (generatePreviews working_render two_sofas)
                    (item_cacheKey sofa_b))"
    by blast
  have "e_calls (generatePreviews working_render two_sofas) = new"
    unfolding new(1) none by simp
  with ok key new(2) only cached show ?thesis
    by simp
qed

text \<open>
  C7: for an id that no stored design carries, getDesign and updateDesign fail with the
  error "Design not found", and the failed update leaves the storage as it was.
\<close>

theorem C7_unknown_id_not_found:
  assumes "\<forall>d\<in>set (getDesigns st). map_of d ''id'' \<noteq> Some (JStr ident)"
  shows "getDesign st ident = Inl (Error ''Design not found'')
       \<and> updateDesign now st ident p = (Inl (Error ''Design not found''), st)"
proof -
  have "find (\<lambda>d. map_of d ''id'' = Some (JStr ident)) (getDesigns st) = None"
    using assms by (simp add: find_None_iff)
  moreover have "findIndex (\<lambda>d. map_of d ''id'' = Some (JStr ident)) (getDesigns st) = None"
    using assms by (simp add: findIndex_None)
  ultimately show ?thesis
    by (simp add: getDesign_def updateDesign_def)
qed

theorem C7_unknown_id_not_found_witness:
  "getDesign (Some seed_designs) ''3'' = Inl (Error ''Design not found'')
   \<and> updateDesign ''2026-01-01T00:00:00.000Z'' (Some seed_designs) ''3'' example_update =
       (Inl (Error ''Design not found''), Some seed_designs)"
proof -
  have "\<forall>d\<in>set (getDesigns (Some seed_designs)). map_of d ''id'' \<noteq> Some (JStr ''3'')"
    by (simp add: getDesigns_def seed_designs_def)
  from C7_unknown_id_not_found [OF this] show ?thesis .
qed

text \<open>
  C8: removing a furniture item by an id that does not exist is a no-op and raises no
  error. With a selected id (99) that no item carries, deleteSelected leaves the list as it
  was and clears the selection, and then throws a TypeError where it reads the name of the
  item it did not find.
\<close>

theorem C8_deleteSelected_throws:
  "truthy_id (e_selectedId (example_editor\<lparr>e_selectedId := Some 99\<rparr>))
   \<and> 99 \<notin> item_id ` set (e_furniture (example_editor\<lparr>e_selectedId := Some 99\<rparr>))
   \<and> deleteSelected (example_editor\<lparr>e_selectedId := Some 99\<rparr>) =
       (Some (TypeError ''Cannot read properties of undefined (reading 'name')''),
        example_editor\<lparr>e_selectedId := None\<rparr>)"
  by (simp add: deleteSelected_def truthy_id_def example_editor_def new_editor_def
      example_sofa_def example_table_def)

text \<open>
  C9: a catalog lookup never fails, and an unrecognized type name resolves to the default
  entry. The lookups never come back undefined, and a name such as "Coffee Table" resolves
  to the default entry; but for the unrecognized name "constructor" each lookup returns
  what the table inherits from Object.prototype under that name, not the default entry.
\<close>

theorem C9_inherited_name_not_default:
  "''constructor'' \<notin> fst ` set MODEL_MAP
   \<and> getModelPath ''constructor'' = Inherited ''constructor''
   \<and> getModelPath ''Coffee Table'' = Own ''/models/cube.glb''
   \<and> config_scale (getModelConfig ''constructor'') = Inherited ''constructor''
   \<and> config_scale (getModelConfig ''Coffee Table'') = Own (5 / 10)
   \<and> getTopDownViewSettings ''constructor'' = Inherited ''constructor''
   \<and> getTopDownViewSettings ''Coffee Table'' =
        Own \<lparr>cameraHeight = 8, rotationOffset = 0, settings_scale = 12 / 10\<rparr>"
  by (simp add: getModelPath_def getModelConfig_def getTopDownViewSettings_def js_get_def
      js_or_def MODEL_MAP_def MODEL_SCALES_def TOP_DOWN_ADJUSTMENTS_def Object_prototype_def)



end
